theory Spec2Isabelle
  imports Main
begin

section \<open>JavaScript values used by the pages\<close>

text \<open>
  A JavaScript string is a \<open>string\<close>; a property that may be \<open>undefined\<close> or
  \<open>null\<close> is a \<open>string option\<close>. Characters outside ASCII are written as their
  UTF-8 bytes. The empty string, \<open>undefined\<close> and \<open>null\<close> are the falsy values of
  such a property.
\<close>

definition js_or :: "string option \<Rightarrow> string option \<Rightarrow> string option" where
  \<comment> \<open>\<^verbatim>\<open>a || b\<close>: the first operand when it is truthy, else the second.\<close>
  "js_or a b = (case a of None \<Rightarrow> b | Some x \<Rightarrow> if x = [] then b else Some x)"

definition js_or_lit :: "string option \<Rightarrow> string \<Rightarrow> string" where
  \<comment> \<open>\<^verbatim>\<open>a || 'literal'\<close>.\<close>
  "js_or_lit a d = (case a of None \<Rightarrow> d | Some x \<Rightarrow> if x = [] then d else x)"

definition template :: "string option \<Rightarrow> string" where
  \<comment> \<open>\<^verbatim>\<open>`${a}`\<close>: an undefined value is printed as the word undefined.\<close>
  "template a = (case a of None \<Rightarrow> ''undefined'' | Some x \<Rightarrow> x)"

definition toUpperCase_char :: "char \<Rightarrow> char" where
  "toUpperCase_char c =
     (case map_of (zip ''abcdefghijklmnopqrstuvwxyz'' ''ABCDEFGHIJKLMNOPQRSTUVWXYZ'') c of
        None \<Rightarrow> c
      | Some u \<Rightarrow> u)"

definition toUpperCase_ascii :: "string \<Rightarrow> string" where
  \<comment> \<open>\<^verbatim>\<open>String.prototype.toUpperCase\<close> on ASCII text.\<close>
  "toUpperCase_ascii s = map toUpperCase_char s"

section \<open>Service Client\<close>

text \<open>
  The module \<^verbatim>\<open>utils/api\<close>: every operation builds one request for the axios
  instance and returns \<^verbatim>\<open>response.data\<close>, or throws the axios error. A request is
  modelled by what the operation hands to axios; the reply is an input of the page
  handlers, \<open>Inr\<close> the payload, \<open>Inl\<close> the error thrown.
\<close>

record File =
  name :: string
  bytes :: string

datatype http_verb = GET | POST

datatype form_value = Text string | Blob File

record http_request =
  verb :: http_verb
  path :: string
  form :: "(string \<times> form_value) list"
  headers :: "(string \<times> string) list"

text \<open>
  What the handlers read of a thrown error: \<^verbatim>\<open>err.response?.data?.detail\<close> and
  \<^verbatim>\<open>err.message\<close>.
\<close>

record AxiosError =
  detail :: "string option"
  message :: "string option"

definition analyzeLabReport :: "File \<Rightarrow> string \<Rightarrow> http_request" where
  "analyzeLabReport file language =
     \<lparr>verb = POST, path = ''/analyze-lab'',
      form = [(''file'', Blob file), (''language'', Text language)],
      headers = [(''Content-Type'', ''multipart/form-data'')]\<rparr>"

definition parsePrescription :: "File \<Rightarrow> string \<Rightarrow> http_request" where
  "parsePrescription file language =
     \<lparr>verb = POST, path = ''/parse-prescription'',
      form = [(''file'', Blob file), (''language'', Text language)],
      headers = [(''Content-Type'', ''multipart/form-data'')]\<rparr>"

definition enrollPatient :: "string \<Rightarrow> string \<Rightarrow> string \<Rightarrow> string \<Rightarrow> http_request" where
  "enrollPatient phone patient language doctorPhone =
     \<lparr>verb = POST, path = ''/checkin/enroll'',
      form = [(''phone'', Text phone), (''name'', Text patient),
              (''language'', Text language), (''doctor_phone'', Text doctorPhone)],
      headers = []\<rparr>"

definition sendCheckin :: "string \<Rightarrow> string \<Rightarrow> string \<Rightarrow> http_request" where
  "sendCheckin phone patient language =
     \<lparr>verb = POST, path = ''/checkin/send'',
      form = [(''phone'', Text phone), (''name'', Text patient),
              (''language'', Text language)],
      headers = []\<rparr>"

definition getDashboardStats :: http_request where
  "getDashboardStats = \<lparr>verb = GET, path = ''/api/dashboard'', form = [], headers = []\<rparr>"

section \<open>Output language\<close>

datatype LanguageCode = en | te | hi

definition LANG_MAP :: "LanguageCode \<Rightarrow> string" where
  "LANG_MAP l = (case l of en \<Rightarrow> ''English'' | te \<Rightarrow> ''Telugu'' | hi \<Rightarrow> ''Hindi'')"

section \<open>Lab report page: severity of a classified value\<close>

text \<open>
  One entry of \<^verbatim>\<open>result.classified_values\<close>. Only \<^verbatim>\<open>status\<close> is read by
  \<^verbatim>\<open>getStatus\<close>; the other fields are passed to the row as they are.
\<close>

record LabValue =
  test :: string
  reading :: string
  unit :: "string option"
  status :: "string option"

text \<open>
  \<^verbatim>\<open>
  const getStatus = (val) => {
      const s = (val.status || '').toUpperCase();
      if (s === 'CRITICAL' || s === 'HIGH') return s === 'CRITICAL' ? 'critical' : 'high';
      if (s === 'LOW') return 'high';
      return 'normal';
  };
  \<close>
  The platform's \<^verbatim>\<open>toUpperCase\<close> is the first argument, so that what is proved of
  \<open>getStatus\<close> holds for the Unicode upper-casing of the browser as well as for
  \<open>toUpperCase_ascii\<close>.
\<close>

definition getStatus :: "(string \<Rightarrow> string) \<Rightarrow> LabValue \<Rightarrow> string" where
  "getStatus toUpperCase val =
     (let s = toUpperCase (js_or_lit (status val) [])
      in if s = ''CRITICAL'' \<or> s = ''HIGH''
         then (if s = ''CRITICAL'' then ''critical'' else ''high'')
         else if s = ''LOW'' then ''high''
         else ''normal'')"

section \<open>Document pages: state cells\<close>

text \<open>
  \<^verbatim>\<open>LabReport\<close> and \<^verbatim>\<open>Prescription\<close> hold the same cells: five \<^verbatim>\<open>useState\<close>
  cells and the ref of the hidden file input. \<open>fileRef\<close> is
  \<^verbatim>\<open>fileRef.current?.files?.[0]\<close>, the selection that input holds; the input is also
  the target of the change event that runs \<^verbatim>\<open>handleUpload\<close>. A payload \<open>'r\<close> is a
  parsed JSON object, which is truthy.
\<close>

record 'r DocPage =
  outputLang :: LanguageCode
  result :: "'r option"
  loading :: bool
  error :: "string option"
  fileName :: string
  fileRef :: "File option"

definition DocPage_init :: "LanguageCode \<Rightarrow> 'r DocPage" where
  \<comment> \<open>The initial values of the cells; \<^verbatim>\<open>lang\<close> is the page's prop.\<close>
  "DocPage_init lang =
     \<lparr>outputLang = lang, result = None, loading = False, error = None,
      fileName = [], fileRef = None\<rparr>"

definition truthy :: "string option \<Rightarrow> bool" where
  \<comment> \<open>\<^verbatim>\<open>{error && ...}\<close> on a cell that is null or a string.\<close>
  "truthy a = (case a of None \<Rightarrow> False | Some x \<Rightarrow> x \<noteq> [])"

section \<open>Lab report page: handlers\<close>

text \<open>
  An async handler is cut at its \<^verbatim>\<open>await\<close>: \<open>_sync\<close> is the part that runs when the
  event fires, and returns the cells it leaves and the requests it hands to the
  Service Client; \<open>_await\<close> is the part that runs when the reply arrives
  (\<^verbatim>\<open>try\<close> body, \<^verbatim>\<open>catch\<close>, \<^verbatim>\<open>finally\<close>), on the cells as they are then. The
  setters of one part are applied together.
  \<^verbatim>\<open>
  const handleUpload = async (e) => {
      const file = e.target.files?.[0];
      if (!file) return;
      setFileName(file.name); setLoading(true); setError(null); setResult(null);
      try { const data = await analyzeLabReport(file, LANG_MAP[outputLang]); setResult(data); }
      catch (err) { setError(err.response?.data?.detail || err.message || 'Analysis failed'); }
      finally { setLoading(false); }
  };
  \<close>
\<close>

definition LabReport_handleUpload_sync ::
  "'r DocPage \<Rightarrow> File option \<Rightarrow> 'r DocPage \<times> http_request list" where
  "LabReport_handleUpload_sync s e =
     (case e of
        None \<Rightarrow> (s, [])
      | Some file \<Rightarrow>
          (s\<lparr>fileName := name file, loading := True, error := None, result := None\<rparr>,
           [analyzeLabReport file (LANG_MAP (outputLang s))]))"

definition LabReport_handleUpload_await ::
  "'r DocPage \<Rightarrow> AxiosError + 'r \<Rightarrow> 'r DocPage" where
  "LabReport_handleUpload_await s reply =
     (case reply of
        Inr data \<Rightarrow> s\<lparr>result := Some data, loading := False\<rparr>
      | Inl err \<Rightarrow>
          s\<lparr>error := Some (js_or_lit (js_or (detail err) (message err)) ''Analysis failed''),
            loading := False\<rparr>)"

text \<open>
  \<^verbatim>\<open>
  const handleReanalyze = async () => {
      if (!fileRef.current?.files?.[0]) return;
      setLoading(true); setError(null);
      try { const data = await analyzeLabReport(fileRef.current.files[0], LANG_MAP[outputLang]);
            setResult(data); }
      catch (err) { setError(err.response?.data?.detail || err.message || 'Analysis failed'); }
      finally { setLoading(false); }
  };
  \<close>
\<close>

definition LabReport_handleReanalyze_sync ::
  "'r DocPage \<Rightarrow> 'r DocPage \<times> http_request list" where
  "LabReport_handleReanalyze_sync s =
     (case fileRef s of
        None \<Rightarrow> (s, [])
      | Some file \<Rightarrow>
          (s\<lparr>loading := True, error := None\<rparr>,
           [analyzeLabReport file (LANG_MAP (outputLang s))]))"

definition LabReport_handleReanalyze_await ::
  "'r DocPage \<Rightarrow> AxiosError + 'r \<Rightarrow> 'r DocPage" where
  "LabReport_handleReanalyze_await s reply =
     (case reply of
        Inr data \<Rightarrow> s\<lparr>result := Some data, loading := False\<rparr>
      | Inl err \<Rightarrow>
          s\<lparr>error := Some (js_or_lit (js_or (detail err) (message err)) ''Analysis failed''),
            loading := False\<rparr>)"

section \<open>Prescription page: handlers\<close>

text \<open>
  \<^verbatim>\<open>handleUpload\<close> of \<^verbatim>\<open>Prescription\<close> differs from the lab report's in the
  operation called and the fallback text. The two reset buttons run
  \<^verbatim>\<open>() => { setError(null); setResult(null); }\<close> (Try Again) and
  \<^verbatim>\<open>() => { setResult(null); setError(null); }\<close> (Upload Another).
\<close>

definition Prescription_handleUpload_sync ::
  "'r DocPage \<Rightarrow> File option \<Rightarrow> 'r DocPage \<times> http_request list" where
  "Prescription_handleUpload_sync s e =
     (case e of
        None \<Rightarrow> (s, [])
      | Some file \<Rightarrow>
          (s\<lparr>fileName := name file, loading := True, error := None, result := None\<rparr>,
           [parsePrescription file (LANG_MAP (outputLang s))]))"

definition Prescription_handleUpload_await ::
  "'r DocPage \<Rightarrow> AxiosError + 'r \<Rightarrow> 'r DocPage" where
  "Prescription_handleUpload_await s reply =
     (case reply of
        Inr data \<Rightarrow> s\<lparr>result := Some data, loading := False\<rparr>
      | Inl err \<Rightarrow>
          s\<lparr>error := Some (js_or_lit (js_or (detail err) (message err)) ''Parsing failed''),
            loading := False\<rparr>)"

definition Prescription_tryAgain :: "'r DocPage \<Rightarrow> 'r DocPage" where
  "Prescription_tryAgain s = s\<lparr>error := None, result := None\<rparr>"

definition Prescription_uploadAnother :: "'r DocPage \<Rightarrow> 'r DocPage" where
  "Prescription_uploadAnother s = s\<lparr>result := None, error := None\<rparr>"

section \<open>Document pages: events and runs\<close>

text \<open>
  A page together with the log of the requests it has handed to the Service Client
  (oldest first) and the handlers that still await a reply (in the order they
  started). Replies may arrive in any order; a request cannot be cancelled.
\<close>

datatype awaiting = Upload | Reanalyze

record 'r World =
  page :: "'r DocPage"
  sent :: "http_request list"
  inflight :: "awaiting list"

definition World_init :: "LanguageCode \<Rightarrow> 'r World" where
  "World_init lang = \<lparr>page = DocPage_init lang, sent = [], inflight = []\<rparr>"

definition issue :: "'r World \<Rightarrow> awaiting \<Rightarrow> 'r DocPage \<times> http_request list \<Rightarrow> 'r World" where
  \<comment> \<open>The synchronous part of handler \<open>h\<close> has run and left \<open>out\<close>.\<close>
  "issue w h out =
     w\<lparr>page := fst out, sent := sent w @ snd out,
       inflight := inflight w @ map (\<lambda>r. h) (snd out)\<rparr>"

definition drop_nth :: "nat \<Rightarrow> 'a list \<Rightarrow> 'a list" where
  "drop_nth i xs = take i xs @ drop (Suc i) xs"

definition results_shown :: "'r DocPage \<Rightarrow> bool" where
  \<comment> \<open>\<^verbatim>\<open>{result && !loading && (<Panel ...>)}\<close>, the panel that holds the language
      strip and the action bar.\<close>
  "results_shown s = (result s \<noteq> None \<and> \<not> loading s)"

text \<open>
  The events of the lab report page: a change event of the file input (the upload
  button and the input are rendered in every state), a click on a button of the
  language strip, a click on the re-analyze button, and the reply to the request of
  the \<open>i\<close>-th handler in flight. A change event carries the new selection of the
  input (none when the selection was emptied), which is what \<open>fileRef\<close> reads from
  then on. The language strip and the re-analyze button are inside the result panel.
\<close>

datatype 'r LabEvent =
    Lab_FileChange "File option"
  | Lab_LangStrip LanguageCode
  | Lab_Reanalyze
  | Lab_Reply nat "AxiosError + 'r"

definition LabReport_offers :: "'r World \<Rightarrow> 'r LabEvent \<Rightarrow> bool" where
  "LabReport_offers w ev =
     (case ev of
        Lab_FileChange e \<Rightarrow> True
      | Lab_LangStrip l \<Rightarrow> results_shown (page w)
      | Lab_Reanalyze \<Rightarrow> results_shown (page w)
      | Lab_Reply i reply \<Rightarrow> i < length (inflight w))"

definition LabReport_step :: "'r World \<Rightarrow> 'r LabEvent \<Rightarrow> 'r World option" where
  "LabReport_step w ev =
     (if \<not> LabReport_offers w ev then None
      else Some
        (case ev of
           Lab_FileChange e \<Rightarrow>
             issue w Upload (LabReport_handleUpload_sync ((page w)\<lparr>fileRef := e\<rparr>) e)
         | Lab_LangStrip l \<Rightarrow> w\<lparr>page := (page w)\<lparr>outputLang := l\<rparr>\<rparr>
         | Lab_Reanalyze \<Rightarrow> issue w Reanalyze (LabReport_handleReanalyze_sync (page w))
         | Lab_Reply i reply \<Rightarrow>
             w\<lparr>page :=
                 (case inflight w ! i of
                    Upload \<Rightarrow> LabReport_handleUpload_await (page w) reply
                  | Reanalyze \<Rightarrow> LabReport_handleReanalyze_await (page w) reply),
               inflight := drop_nth i (inflight w)\<rparr>))"

fun LabReport_run :: "'r World \<Rightarrow> 'r LabEvent list \<Rightarrow> 'r World option" where
  "LabReport_run w [] = Some w"
| "LabReport_run w (ev # evs) =
     (case LabReport_step w ev of None \<Rightarrow> None | Some w' \<Rightarrow> LabReport_run w' evs)"

text \<open>
  The events of the prescription page: it has no re-analyze button, and two reset
  buttons, Try Again inside \<^verbatim>\<open>{error && (...)}\<close> and Upload Another inside the
  result panel.
\<close>

datatype 'r RxEvent =
    Rx_FileChange "File option"
  | Rx_LangStrip LanguageCode
  | Rx_TryAgain
  | Rx_UploadAnother
  | Rx_Reply nat "AxiosError + 'r"

definition Prescription_offers :: "'r World \<Rightarrow> 'r RxEvent \<Rightarrow> bool" where
  "Prescription_offers w ev =
     (case ev of
        Rx_FileChange e \<Rightarrow> True
      | Rx_LangStrip l \<Rightarrow> results_shown (page w)
      | Rx_TryAgain \<Rightarrow> truthy (error (page w))
      | Rx_UploadAnother \<Rightarrow> results_shown (page w)
      | Rx_Reply i reply \<Rightarrow> i < length (inflight w))"

definition Prescription_step :: "'r World \<Rightarrow> 'r RxEvent \<Rightarrow> 'r World option" where
  "Prescription_step w ev =
     (if \<not> Prescription_offers w ev then None
      else Some
        (case ev of
           Rx_FileChange e \<Rightarrow>
             issue w Upload (Prescription_handleUpload_sync ((page w)\<lparr>fileRef := e\<rparr>) e)
         | Rx_LangStrip l \<Rightarrow> w\<lparr>page := (page w)\<lparr>outputLang := l\<rparr>\<rparr>
         | Rx_TryAgain \<Rightarrow> w\<lparr>page := Prescription_tryAgain (page w)\<rparr>
         | Rx_UploadAnother \<Rightarrow> w\<lparr>page := Prescription_uploadAnother (page w)\<rparr>
         | Rx_Reply i reply \<Rightarrow>
             w\<lparr>page := Prescription_handleUpload_await (page w) reply,
               inflight := drop_nth i (inflight w)\<rparr>))"

fun Prescription_run :: "'r World \<Rightarrow> 'r RxEvent list \<Rightarrow> 'r World option" where
  "Prescription_run w [] = Some w"
| "Prescription_run w (ev # evs) =
     (case Prescription_step w ev of None \<Rightarrow> None | Some w' \<Rightarrow> Prescription_run w' evs)"

text \<open>
  The workflow is idle when no cell of the three is set: the upload zone is shown and
  nothing else.
\<close>

definition idle :: "'r DocPage \<Rightarrow> bool" where
  "idle s = (result s = None \<and> error s = None \<and> \<not> loading s)"

definition both_shown :: "'r DocPage \<Rightarrow> bool" where
  \<comment> \<open>A failure message and a result are held at once.\<close>
  "both_shown s = (result s \<noteq> None \<and> error s \<noteq> None)"

section \<open>Workflow states of a document page\<close>

text \<open>
  The four workflow states, read off the cells the way the page renders them: the
  loading block is rendered when \<open>loading\<close>, the result panel when
  \<open>results_shown\<close>, the error block when \<open>error\<close> is truthy; the workflow is idle when
  none of the three cells is set. \<open>active\<close> lists the states that hold of a page.
\<close>

datatype WorkflowTag = Idle | Pending | Succeeded | Failed

definition active :: "'r DocPage \<Rightarrow> WorkflowTag list" where
  "active s =
     (if idle s then [Idle] else []) @
     (if loading s then [Pending] else []) @
     (if results_shown s then [Succeeded] else []) @
     (if truthy (error s) then [Failed] else [])"

text \<open>
  Runs in which the user takes turns with the service: a file is selected only while
  no request is in flight. For the lab report page, \<open>LabReport_orderly\<close> rules out in
  addition the runs in which a re-analysis fails.
\<close>

definition Lab_in_turn :: "'r World \<Rightarrow> 'r LabEvent \<Rightarrow> bool" where
  "Lab_in_turn w ev =
     (case ev of Lab_FileChange (Some f) \<Rightarrow> inflight w = [] | _ \<Rightarrow> True)"

definition Lab_reanalysis_fails :: "'r World \<Rightarrow> 'r LabEvent \<Rightarrow> bool" where
  "Lab_reanalysis_fails w ev =
     (case ev of
        Lab_Reply i (Inl err) \<Rightarrow> i < length (inflight w) \<and> inflight w ! i = Reanalyze
      | _ \<Rightarrow> False)"

fun LabReport_orderly :: "'r World \<Rightarrow> 'r LabEvent list \<Rightarrow> bool" where
  "LabReport_orderly w [] = True"
| "LabReport_orderly w (ev # evs) =
     (Lab_in_turn w ev \<and> \<not> Lab_reanalysis_fails w ev \<and>
      (case LabReport_step w ev of None \<Rightarrow> False | Some w' \<Rightarrow> LabReport_orderly w' evs))"

definition Rx_in_turn :: "'r World \<Rightarrow> 'r RxEvent \<Rightarrow> bool" where
  "Rx_in_turn w ev =
     (case ev of Rx_FileChange (Some f) \<Rightarrow> inflight w = [] | _ \<Rightarrow> True)"

fun Prescription_orderly :: "'r World \<Rightarrow> 'r RxEvent list \<Rightarrow> bool" where
  "Prescription_orderly w [] = True"
| "Prescription_orderly w (ev # evs) =
     (Rx_in_turn w ev \<and>
      (case Prescription_step w ev of
         None \<Rightarrow> False
       | Some w' \<Rightarrow> Prescription_orderly w' evs))"

text \<open>The invariants of these runs.\<close>

definition Lab_inv :: "'r World \<Rightarrow> bool" where
  "Lab_inv w =
     (error (page w) \<noteq> Some [] \<and>
      (if inflight w = [] then \<not> loading (page w) \<and> \<not> both_shown (page w)
       else if inflight w = [Upload]
         then loading (page w) \<and> result (page w) = None \<and> error (page w) = None
       else inflight w = [Reanalyze] \<and> loading (page w) \<and> error (page w) = None))"

definition Rx_inv :: "'r World \<Rightarrow> bool" where
  "Rx_inv w =
     (error (page w) \<noteq> Some [] \<and>
      (if inflight w = [] then \<not> loading (page w) \<and> \<not> both_shown (page w)
       else inflight w = [Upload] \<and> loading (page w) \<and> result (page w) = None \<and>
            error (page w) = None))"

section \<open>Lab report page: the rows of a result\<close>

text \<open>
  The payload of \<^verbatim>\<open>/analyze-lab\<close> as far as the result panel reads it, and the
  rows it renders: \<^verbatim>\<open>result.classified_values.map((v, i) => <LabRow name={v.test}
  ... status={getStatus(v)} />)\<close>, under a guard that renders nothing for an empty
  list.
\<close>

record LabResult =
  classified_values :: "LabValue list"
  summary :: "string option"
  critical_flags :: "string list"

definition LabReport_rows :: "(string \<Rightarrow> string) \<Rightarrow> LabResult \<Rightarrow> (string \<times> string) list" where
  "LabReport_rows toUpperCase r =
     map (\<lambda>v. (test v, getStatus toUpperCase v)) (classified_values r)"

definition report_pdf :: File where
  "report_pdf = \<lparr>name = ''report.pdf'', bytes = ''%PDF-1.4''\<rparr>"

definition glucose_result :: LabResult where
  "glucose_result =
     \<lparr>classified_values =
        [\<lparr>test = ''Glucose'', reading = ''142'', unit = None, status = Some ''HIGH''\<rparr>],
      summary = None, critical_flags = []\<rparr>"

definition network_down :: AxiosError where
  \<comment> \<open>No response was received: axios sets only the message.\<close>
  "network_down = \<lparr>detail = None, message = Some ''Network Error''\<rparr>"

definition lab_succeeded :: "LabResult World" where
  \<comment> \<open>The lab report page after \<open>report_pdf\<close> was uploaded and analysed.\<close>
  "lab_succeeded =
     \<lparr>page = \<lparr>outputLang = en, result = Some glucose_result, loading = False,
              error = None, fileName = ''report.pdf'', fileRef = Some report_pdf\<rparr>,
      sent = [analyzeLabReport report_pdf ''English''], inflight = []\<rparr>"

section \<open>Prescription page: payload\<close>

text \<open>The payload of \<^verbatim>\<open>/parse-prescription\<close> as far as the result panel reads it.\<close>

record Medicine =
  medicine :: string
  dosage :: "string option"
  translated_instruction :: "string option"

record RxResult =
  ocr_text :: "string option"
  medicines :: "Medicine list"

definition rx_jpg :: File where
  "rx_jpg = \<lparr>name = ''rx.jpg'', bytes = ''JFIF''\<rparr>"

definition rx_retake_jpg :: File where
  "rx_retake_jpg = \<lparr>name = ''rx-2.jpg'', bytes = ''JFIF''\<rparr>"

definition metformin_result :: RxResult where
  "metformin_result =
     \<lparr>ocr_text = Some ''Metformin 500mg'',
      medicines = [\<lparr>medicine = ''Metformin'', dosage = Some ''500mg'',
                    translated_instruction = None\<rparr>]\<rparr>"

definition rx_succeeded :: "RxResult World" where
  \<comment> \<open>The prescription page after \<open>rx_jpg\<close> was uploaded and parsed.\<close>
  "rx_succeeded =
     \<lparr>page = \<lparr>outputLang = en, result = Some metformin_result, loading = False,
              error = None, fileName = ''rx.jpg'', fileRef = Some rx_jpg\<rparr>,
      sent = [parsePrescription rx_jpg ''English''], inflight = []\<rparr>"

definition rx_failed :: "RxResult World" where
  \<comment> \<open>The prescription page after the upload of \<open>rx_jpg\<close> failed.\<close>
  "rx_failed =
     \<lparr>page = \<lparr>outputLang = en, result = None, loading = False,
              error = Some ''Network Error'', fileName = ''rx.jpg'', fileRef = Some rx_jpg\<rparr>,
      sent = [parsePrescription rx_jpg ''English''], inflight = []\<rparr>"

section \<open>Follow-up page\<close>

text \<open>
  The literals of the page that are not ASCII, as UTF-8: the check mark U+2705, the
  warning sign U+26A0 with its variation selector U+FE0F, the cross mark U+274C and
  the dash U+2014. The quotations of the source below write them [check], [warning],
  [cross] and [dash].
\<close>

definition check_mark :: string where
  "check_mark = [CHR 0xE2, CHR 0x9C, CHR 0x85]"

definition warning_sign :: string where
  "warning_sign = [CHR 0xE2, CHR 0x9A, CHR 0xA0, CHR 0xEF, CHR 0xB8, CHR 0x8F]"

definition cross_mark :: string where
  "cross_mark = [CHR 0xE2, CHR 0x9D, CHR 0x8C]"

definition em_dash :: string where
  "em_dash = [CHR 0xE2, CHR 0x80, CHR 0x94]"

text \<open>
  The payload of \<^verbatim>\<open>/checkin/send\<close>, an object whose \<^verbatim>\<open>message_sid\<close> may be
  missing or null.
\<close>

record CheckinResponse =
  message_sid :: "string option"

record Status =
  ok :: bool
  msg :: string

record EnrollForm =
  phone :: string
  name :: string
  language :: string
  doctorPhone :: string

record FollowUp =
  chatLang :: LanguageCode
  inputText :: string
  checkinStatus :: "Status option"
  checkinLoading :: bool
  enrollForm :: EnrollForm
  enrollStatus :: "Status option"

definition FollowUp_init :: "LanguageCode \<Rightarrow> FollowUp" where
  "FollowUp_init lang =
     \<lparr>chatLang = lang, inputText = [], checkinStatus = None, checkinLoading = False,
      enrollForm = \<lparr>phone = [], name = [], language = ''English'', doctorPhone = []\<rparr>,
      enrollStatus = None\<rparr>"

text \<open>
  \<^verbatim>\<open>
  const handleTriggerCheckin = async () => {
      setCheckinLoading(true); setCheckinStatus(null);
      try {
          const result = await sendCheckin('+919999999999', 'Ravi Kumar',
              chatLang === 'te' ? 'Telugu' : chatLang === 'hi' ? 'Hindi' : 'English');
          setCheckinStatus({ ok: true, msg: result.message_sid
              ? `[check] Check-in sent (SID: ${result.message_sid})`
              : '[check] Check-in triggered (Twilio not configured [dash] demo mode)' });
      } catch (err) {
          const detail = err.response?.data?.detail || err.message;
          setCheckinStatus({ ok: false, msg:
              `[warning] ${detail || 'Check-in failed [dash] Twilio credentials may be missing'}` });
      } finally { setCheckinLoading(false); }
  };
  \<close>
\<close>

definition handleTriggerCheckin_sync :: "FollowUp \<Rightarrow> FollowUp \<times> http_request list" where
  "handleTriggerCheckin_sync s =
     (s\<lparr>checkinLoading := True, checkinStatus := None\<rparr>,
      [sendCheckin ''+919999999999'' ''Ravi Kumar''
         (if chatLang s = te then ''Telugu''
          else if chatLang s = hi then ''Hindi'' else ''English'')])"

definition handleTriggerCheckin_await ::
  "FollowUp \<Rightarrow> AxiosError + CheckinResponse \<Rightarrow> FollowUp" where
  "handleTriggerCheckin_await s reply =
     (case reply of
        Inr res \<Rightarrow>
          s\<lparr>checkinStatus := Some
              \<lparr>ok = True,
               msg = (if truthy (message_sid res)
                      then check_mark @ '' Check-in sent (SID: '' @
                           template (message_sid res) @ '')''
                      else check_mark @ '' Check-in triggered (Twilio not configured '' @
                           em_dash @ '' demo mode)'')\<rparr>,
            checkinLoading := False\<rparr>
      | Inl err \<Rightarrow>
          (let d = js_or (detail err) (message err)
           in s\<lparr>checkinStatus := Some
                  \<lparr>ok = False,
                   msg = warning_sign @ '' '' @
                         js_or_lit d (''Check-in failed '' @ em_dash @
                                      '' Twilio credentials may be missing'')\<rparr>,
                checkinLoading := False\<rparr>))"

text \<open>
  \<^verbatim>\<open>
  const handleEnroll = async (e) => {
      e.preventDefault();
      try {
          await enrollPatient(enrollForm.phone, enrollForm.name, enrollForm.language,
                              enrollForm.doctorPhone);
          setEnrollStatus({ ok: true, msg: '[check] Patient enrolled successfully' });
      } catch (err) {
          setEnrollStatus({ ok: false, msg: `[cross] ${err.response?.data?.detail || err.message}` });
      }
  };
  \<close>
  The two inputs of the form write \<^verbatim>\<open>phone\<close> and \<^verbatim>\<open>name\<close> of the draft; neither
  input is marked required.
\<close>

definition setPhone :: "string \<Rightarrow> FollowUp \<Rightarrow> FollowUp" where
  "setPhone v s = s\<lparr>enrollForm := (enrollForm s)\<lparr>phone := v\<rparr>\<rparr>"

definition setName :: "string \<Rightarrow> FollowUp \<Rightarrow> FollowUp" where
  "setName v s = s\<lparr>enrollForm := (enrollForm s)\<lparr>name := v\<rparr>\<rparr>"

definition handleEnroll_sync :: "FollowUp \<Rightarrow> FollowUp \<times> http_request list" where
  "handleEnroll_sync s =
     (s, [enrollPatient (phone (enrollForm s)) (name (enrollForm s))
            (language (enrollForm s)) (doctorPhone (enrollForm s))])"

definition handleEnroll_await :: "FollowUp \<Rightarrow> AxiosError + 'a \<Rightarrow> FollowUp" where
  "handleEnroll_await s reply =
     (case reply of
        Inr res \<Rightarrow>
          s\<lparr>enrollStatus := Some
              \<lparr>ok = True, msg = check_mark @ '' Patient enrolled successfully''\<rparr>\<rparr>
      | Inl err \<Rightarrow>
          s\<lparr>enrollStatus := Some
              \<lparr>ok = False,
               msg = cross_mark @ '' '' @ template (js_or (detail err) (message err))\<rparr>\<rparr>)"

section \<open>Dashboard page\<close>

text \<open>
  \<^verbatim>\<open>
  const [stats, setStats] = useState({ lab_count: 24, rx_count: 4, alert_count: 3, recovery_day: 5 });
  useEffect(() => {
      getDashboardStats()
          .then(data => setStats(data))
          .catch(() => { }); // silently fall back to defaults
  }, []);
  \<close>
  \<^verbatim>\<open>stats\<close> is the only cell of the page: it has none for an error.
\<close>

record Stats =
  lab_count :: int
  rx_count :: int
  alert_count :: int
  recovery_day :: int

record Dashboard =
  stats :: Stats

definition Dashboard_init :: Dashboard where
  "Dashboard_init =
     \<lparr>stats = \<lparr>lab_count = 24, rx_count = 4, alert_count = 3, recovery_day = 5\<rparr>\<rparr>"

definition Dashboard_effect_sync :: "Dashboard \<Rightarrow> Dashboard \<times> http_request list" where
  "Dashboard_effect_sync s = (s, [getDashboardStats])"

definition Dashboard_effect_await :: "Dashboard \<Rightarrow> AxiosError + Stats \<Rightarrow> Dashboard" where
  "Dashboard_effect_await s reply =
     (case reply of Inr data \<Rightarrow> s\<lparr>stats := data\<rparr> | Inl err \<Rightarrow> s)"

text \<open>
  The figures the page shows: the values of the four stat cards (the last one after
  the word Day) and the count beside the alerts panel.
\<close>

definition Dashboard_figures :: "Dashboard \<Rightarrow> int list" where
  "Dashboard_figures s =
     [lab_count (stats s), rx_count (stats s), alert_count (stats s),
      recovery_day (stats s), alert_count (stats s)]"

section \<open>Severity classification\<close>

lemma js_or_lit_empty: "js_or_lit a [] = (case a of None \<Rightarrow> [] | Some x \<Rightarrow> x)"
  by (simp add: js_or_lit_def split: option.split)

lemma toUpperCase_ascii_simps:
  "toUpperCase_ascii [] = []"
  "toUpperCase_ascii (c # cs) = toUpperCase_char c # toUpperCase_ascii cs"
  by (simp_all add: toUpperCase_ascii_def)

text \<open>
  C1. The severity of an entry is a function of its status string alone: with \<open>s\<close> the
  upper-cased status (the empty string when the status is missing), CRITICAL gives
  critical, HIGH gives high, LOW gives high and everything else gives normal; the
  result is always one of normal, high, critical. With ASCII upper-casing a missing or
  empty status gives normal, and the spelling of the status in lower case, upper case
  or mixed case gives the same severity. The rows of a result carry these severities,
  one per entry of \<^verbatim>\<open>classified_values\<close>, in order.
\<close>

theorem getStatus_total_mapping:
  "getStatus up v =
     (let s = up (case status v of None \<Rightarrow> [] | Some x \<Rightarrow> x)
      in if s = ''CRITICAL'' then ''critical''
         else if s = ''HIGH'' then ''high''
         else if s = ''LOW'' then ''high''
         else ''normal'')
   \<and> getStatus up v \<in> {''normal'', ''high'', ''critical''}
   \<and> getStatus up (v\<lparr>test := t, reading := r, unit := u\<rparr>) = getStatus up v
   \<and> getStatus toUpperCase_ascii (v\<lparr>status := None\<rparr>) = ''normal''
   \<and> getStatus toUpperCase_ascii (v\<lparr>status := Some []\<rparr>) = ''normal''
   \<and> getStatus toUpperCase_ascii (v\<lparr>status := Some ''NORMAL''\<rparr>) = ''normal''
   \<and> getStatus toUpperCase_ascii (v\<lparr>status := Some ''Critical''\<rparr>) = ''critical''
   \<and> getStatus toUpperCase_ascii (v\<lparr>status := Some ''high''\<rparr>) = ''high''
   \<and> getStatus toUpperCase_ascii (v\<lparr>status := Some ''lOw''\<rparr>) = ''high''
   \<and> map snd (LabReport_rows up res) = map (getStatus up) (classified_values res)
   \<and> list_all (\<lambda>x. x \<in> {''normal'', ''high'', ''critical''})
        (map snd (LabReport_rows up res))
   \<and> LabReport_rows toUpperCase_ascii glucose_result = [(''Glucose'', ''high'')]"
proof -
  have range: "getStatus up x \<in> {''normal'', ''high'', ''critical''}" for x
    by (simp add: getStatus_def Let_def)
  have rows: "map snd (LabReport_rows up res) = map (getStatus up) (classified_values res)"
    by (simp add: LabReport_rows_def comp_def)
  have every: "list_all (\<lambda>x. x \<in> {''normal'', ''high'', ''critical''})
        (map snd (LabReport_rows up res))"
    unfolding rows using range by (simp add: list_all_iff)
  have scenario: "LabReport_rows toUpperCase_ascii glucose_result = [(''Glucose'', ''high'')]"
    by (simp add: LabReport_rows_def glucose_result_def getStatus_def js_or_lit_empty
        toUpperCase_ascii_simps toUpperCase_char_def)
  show ?thesis
    by (intro conjI)
      (rule rows every scenario
       | simp add: getStatus_def js_or_lit_empty Let_def toUpperCase_ascii_simps
           toUpperCase_char_def)+
qed

section \<open>Document workflow: sequence and states\<close>

lemmas page_defs =
  World_init_def DocPage_init_def issue_def drop_nth_def results_shown_def truthy_def
  idle_def both_shown_def active_def

lemmas lab_defs =
  LabReport_step_def LabReport_offers_def LabReport_handleUpload_sync_def
  LabReport_handleUpload_await_def LabReport_handleReanalyze_sync_def
  LabReport_handleReanalyze_await_def Lab_in_turn_def Lab_reanalysis_fails_def

lemmas rx_defs =
  Prescription_step_def Prescription_offers_def Prescription_handleUpload_sync_def
  Prescription_handleUpload_await_def Prescription_tryAgain_def
  Prescription_uploadAnother_def Rx_in_turn_def

lemma js_or_lit_nonempty: "d \<noteq> [] \<Longrightarrow> js_or_lit a d \<noteq> []"
  by (simp add: js_or_lit_def split: option.split)

lemma Lab_inv_step:
  assumes "Lab_inv w" "Lab_in_turn w ev" "\<not> Lab_reanalysis_fails w ev"
    "LabReport_step w ev = Some w'"
  shows "Lab_inv w'"
proof (cases ev)
  case (Lab_FileChange e)
  with assms show ?thesis
    by (cases e)
      (auto simp: Lab_inv_def LabReport_step_def LabReport_offers_def issue_def
        LabReport_handleUpload_sync_def Lab_in_turn_def both_shown_def split: if_splits)
next
  case (Lab_LangStrip l)
  with assms show ?thesis
    by (auto simp: Lab_inv_def LabReport_step_def LabReport_offers_def both_shown_def
        results_shown_def split: if_splits)
next
  case Lab_Reanalyze
  with assms show ?thesis
    by (cases "fileRef (page w)")
      (auto simp: Lab_inv_def LabReport_step_def LabReport_offers_def issue_def
        LabReport_handleReanalyze_sync_def both_shown_def results_shown_def split: if_splits)
next
  case (Lab_Reply i reply)
  with assms show ?thesis
    by (cases reply)
      (auto simp: Lab_inv_def LabReport_step_def LabReport_offers_def drop_nth_def
        LabReport_handleUpload_await_def LabReport_handleReanalyze_await_def
        Lab_reanalysis_fails_def both_shown_def js_or_lit_nonempty
        split: if_splits awaiting.splits)
qed

lemma Lab_inv_run:
  "Lab_inv w \<Longrightarrow> LabReport_orderly w evs \<Longrightarrow>
   \<exists>w'. LabReport_run w evs = Some w' \<and> Lab_inv w'"
proof (induction evs arbitrary: w)
  case Nil
  then show ?case by simp
next
  case (Cons ev evs)
  then obtain w1 where s: "LabReport_step w ev = Some w1" and o: "LabReport_orderly w1 evs"
    and t: "Lab_in_turn w ev" "\<not> Lab_reanalysis_fails w ev"
    by (auto split: option.splits)
  from Lab_inv_step[OF Cons.prems(1) t s] have "Lab_inv w1" .
  from Cons.IH[OF this o] s show ?case by simp
qed

lemma Lab_inv_active: "Lab_inv w \<Longrightarrow> \<exists>t. active (page w) = [t]"
  by (auto simp: Lab_inv_def active_def idle_def results_shown_def both_shown_def truthy_def
      split: if_splits option.splits)


lemma Rx_inv_step:
  assumes "Rx_inv w" "Rx_in_turn w ev" "Prescription_step w ev = Some w'"
  shows "Rx_inv w'"
proof (cases ev)
  case (Rx_FileChange e)
  with assms show ?thesis
    by (cases e)
      (auto simp: Rx_inv_def Prescription_step_def Prescription_offers_def issue_def
        Prescription_handleUpload_sync_def Rx_in_turn_def both_shown_def split: if_splits)
next
  case (Rx_LangStrip l)
  with assms show ?thesis
    by (auto simp: Rx_inv_def Prescription_step_def Prescription_offers_def both_shown_def
        results_shown_def split: if_splits)
next
  case Rx_TryAgain
  with assms show ?thesis
    by (auto simp: Rx_inv_def Prescription_step_def Prescription_offers_def both_shown_def
        Prescription_tryAgain_def truthy_def split: if_splits)
next
  case Rx_UploadAnother
  with assms show ?thesis
    by (auto simp: Rx_inv_def Prescription_step_def Prescription_offers_def both_shown_def
        Prescription_uploadAnother_def results_shown_def split: if_splits)
next
  case (Rx_Reply i reply)
  with assms show ?thesis
    by (cases reply)
      (auto simp: Rx_inv_def Prescription_step_def Prescription_offers_def drop_nth_def
        Prescription_handleUpload_await_def both_shown_def js_or_lit_nonempty
        split: if_splits)
qed

lemma Rx_inv_run:
  "Rx_inv w \<Longrightarrow> Prescription_orderly w evs \<Longrightarrow>
   \<exists>w'. Prescription_run w evs = Some w' \<and> Rx_inv w'"
proof (induction evs arbitrary: w)
  case Nil
  then show ?case by simp
next
  case (Cons ev evs)
  then obtain w1 where s: "Prescription_step w ev = Some w1"
    and o: "Prescription_orderly w1 evs" and t: "Rx_in_turn w ev"
    by (auto split: option.splits)
  from Rx_inv_step[OF Cons.prems(1) t s] have "Rx_inv w1" .
  from Cons.IH[OF this o] s show ?case by simp
qed

lemma Rx_inv_active: "Rx_inv w \<Longrightarrow> \<exists>t. active (page w) = [t]"
  by (auto simp: Rx_inv_def active_def idle_def results_shown_def both_shown_def truthy_def
      split: if_splits option.splits)

lemma Lab_inv_init: "Lab_inv (World_init l)"
  by (simp add: Lab_inv_def World_init_def DocPage_init_def both_shown_def)

lemma Rx_inv_init: "Rx_inv (World_init l)"
  by (simp add: Rx_inv_def World_init_def DocPage_init_def both_shown_def)

lemma nth_drop_last: "(xs @ [x]) ! length xs = x" "drop_nth (length xs) (xs @ [x]) = xs"
  by (simp_all add: drop_nth_def)

lemma Lab_upload_sequence:
  fixes w :: "'r World"
  shows "\<exists>w1. LabReport_step w (Lab_FileChange (Some f)) = Some w1
      \<and> active (page w1) = [Pending] \<and> result (page w1) = None \<and> error (page w1) = None
      \<and> fileName (page w1) = File.name f
      \<and> sent w1 = sent w @ [analyzeLabReport f (LANG_MAP (outputLang (page w)))]
      \<and> inflight w1 = inflight w @ [Upload]
      \<and> (\<exists>w2. LabReport_step w1 (Lab_Reply (length (inflight w)) (Inr d)) = Some w2
            \<and> active (page w2) = [Succeeded] \<and> result (page w2) = Some d
            \<and> error (page w2) = None \<and> sent w2 = sent w1)
      \<and> (\<exists>w3 m. LabReport_step w1 (Lab_Reply (length (inflight w)) (Inl err)) = Some w3
            \<and> active (page w3) = [Failed] \<and> error (page w3) = Some m \<and> m \<noteq> []
            \<and> result (page w3) = None \<and> sent w3 = sent w1)"
  by (simp add: LabReport_step_def LabReport_offers_def issue_def
      LabReport_handleUpload_sync_def LabReport_handleUpload_await_def nth_drop_last
      active_def idle_def results_shown_def truthy_def js_or_lit_nonempty)

lemma Rx_upload_sequence:
  fixes w :: "'r World"
  shows "\<exists>w1. Prescription_step w (Rx_FileChange (Some f)) = Some w1
      \<and> active (page w1) = [Pending] \<and> result (page w1) = None \<and> error (page w1) = None
      \<and> fileName (page w1) = File.name f
      \<and> sent w1 = sent w @ [parsePrescription f (LANG_MAP (outputLang (page w)))]
      \<and> inflight w1 = inflight w @ [Upload]
      \<and> (\<exists>w2. Prescription_step w1 (Rx_Reply (length (inflight w)) (Inr d)) = Some w2
            \<and> active (page w2) = [Succeeded] \<and> result (page w2) = Some d
            \<and> error (page w2) = None \<and> sent w2 = sent w1)
      \<and> (\<exists>w3 m. Prescription_step w1 (Rx_Reply (length (inflight w)) (Inl err)) = Some w3
            \<and> active (page w3) = [Failed] \<and> error (page w3) = Some m \<and> m \<noteq> []
            \<and> result (page w3) = None \<and> sent w3 = sent w1)"
  by (simp add: Prescription_step_def Prescription_offers_def issue_def
      Prescription_handleUpload_sync_def Prescription_handleUpload_await_def nth_drop_last
      active_def idle_def results_shown_def truthy_def js_or_lit_nonempty)

lemma Lab_reanalyze_failure:
  fixes w :: "'r World"
  assumes "results_shown (page w)" "fileRef (page w) = Some f"
  shows "\<exists>w1 w2 m. LabReport_step w Lab_Reanalyze = Some w1 \<and> active (page w1) = [Pending]
      \<and> result (page w1) = result (page w) \<and> error (page w1) = None
      \<and> LabReport_step w1 (Lab_Reply (length (inflight w)) (Inl err)) = Some w2
      \<and> result (page w2) = result (page w) \<and> error (page w2) = Some m \<and> m \<noteq> []
      \<and> active (page w2) = [Succeeded, Failed]"
  using assms
  by (simp add: LabReport_step_def LabReport_offers_def issue_def
      LabReport_handleReanalyze_sync_def LabReport_handleReanalyze_await_def nth_drop_last
      active_def idle_def results_shown_def truthy_def js_or_lit_nonempty)


lemma Lab_inv_single: "Lab_inv w \<Longrightarrow> \<not> both_shown (page w)"
  by (auto simp: Lab_inv_def both_shown_def split: if_splits)

lemma Rx_inv_single: "Rx_inv w \<Longrightarrow> \<not> both_shown (page w)"
  by (auto simp: Rx_inv_def both_shown_def split: if_splits)

text \<open>
  C2 (as amended). A file selection takes the page to Pending alone (loading set,
  result and error cleared, the file's name recorded, one request handed to the
  Service Client); the reply to that request takes it to Succeeded alone (the result,
  no error) or to Failed alone (a non-empty message, no result): Pending is not
  skipped, on either page. In every run from the initial state in which a file is
  selected only while no request is in flight, the prescription page is in exactly one
  workflow state and never holds a failure message and a result at once, and so is the
  lab report page as long as no re-analysis fails. A re-analysis that fails keeps the
  earlier result beside the failure message.
\<close>

theorem upload_sequence_and_single_state:
  fixes w :: "'r World" and v :: "'q World"
  shows
  "(\<exists>w1. LabReport_step w (Lab_FileChange (Some f)) = Some w1
      \<and> active (page w1) = [Pending] \<and> result (page w1) = None \<and> error (page w1) = None
      \<and> fileName (page w1) = File.name f
      \<and> sent w1 = sent w @ [analyzeLabReport f (LANG_MAP (outputLang (page w)))]
      \<and> inflight w1 = inflight w @ [Upload]
      \<and> (\<exists>w2. LabReport_step w1 (Lab_Reply (length (inflight w)) (Inr d)) = Some w2
            \<and> active (page w2) = [Succeeded] \<and> result (page w2) = Some d
            \<and> error (page w2) = None \<and> sent w2 = sent w1)
      \<and> (\<exists>w3 m. LabReport_step w1 (Lab_Reply (length (inflight w)) (Inl err)) = Some w3
            \<and> active (page w3) = [Failed] \<and> error (page w3) = Some m \<and> m \<noteq> []
            \<and> result (page w3) = None \<and> sent w3 = sent w1))
   \<and> (\<exists>v1. Prescription_step v (Rx_FileChange (Some g)) = Some v1
      \<and> active (page v1) = [Pending] \<and> result (page v1) = None \<and> error (page v1) = None
      \<and> fileName (page v1) = File.name g
      \<and> sent v1 = sent v @ [parsePrescription g (LANG_MAP (outputLang (page v)))]
      \<and> inflight v1 = inflight v @ [Upload]
      \<and> (\<exists>v2. Prescription_step v1 (Rx_Reply (length (inflight v)) (Inr c)) = Some v2
            \<and> active (page v2) = [Succeeded] \<and> result (page v2) = Some c
            \<and> error (page v2) = None \<and> sent v2 = sent v1)
      \<and> (\<exists>v3 m. Prescription_step v1 (Rx_Reply (length (inflight v)) (Inl err)) = Some v3
            \<and> active (page v3) = [Failed] \<and> error (page v3) = Some m \<and> m \<noteq> []
            \<and> result (page v3) = None \<and> sent v3 = sent v1))
   \<and> (LabReport_orderly (World_init l :: 'r World) evs \<longrightarrow>
        (\<exists>w' t. LabReport_run (World_init l :: 'r World) evs = Some w'
           \<and> active (page w') = [t] \<and> \<not> both_shown (page w')))
   \<and> (Prescription_orderly (World_init l :: 'q World) rvs \<longrightarrow>
        (\<exists>v' t. Prescription_run (World_init l :: 'q World) rvs = Some v'
           \<and> active (page v') = [t] \<and> \<not> both_shown (page v')))
   \<and> (results_shown (page w) \<and> fileRef (page w) = Some f \<longrightarrow>
        (\<exists>w1 w2 m. LabReport_step w Lab_Reanalyze = Some w1 \<and> active (page w1) = [Pending]
           \<and> result (page w1) = result (page w) \<and> error (page w1) = None
           \<and> LabReport_step w1 (Lab_Reply (length (inflight w)) (Inl err)) = Some w2
           \<and> result (page w2) = result (page w) \<and> error (page w2) = Some m \<and> m \<noteq> []
           \<and> active (page w2) = [Succeeded, Failed]))"
proof -
  have lab: "LabReport_orderly (World_init l :: 'r World) evs \<longrightarrow>
        (\<exists>w' t. LabReport_run (World_init l :: 'r World) evs = Some w'
           \<and> active (page w') = [t] \<and> \<not> both_shown (page w'))"
  proof
    assume "LabReport_orderly (World_init l :: 'r World) evs"
    from Lab_inv_run[OF Lab_inv_init this]
    obtain w' where r: "LabReport_run (World_init l :: 'r World) evs = Some w'"
      and i: "Lab_inv w'" by blast
    from Lab_inv_active[OF i] obtain t where "active (page w') = [t]" ..
    moreover from i have "\<not> both_shown (page w')" by (rule Lab_inv_single)
    ultimately show "\<exists>w' t. LabReport_run (World_init l :: 'r World) evs = Some w'
           \<and> active (page w') = [t] \<and> \<not> both_shown (page w')"
      using r by blast
  qed
  have rx: "Prescription_orderly (World_init l :: 'q World) rvs \<longrightarrow>
        (\<exists>v' t. Prescription_run (World_init l :: 'q World) rvs = Some v'
           \<and> active (page v') = [t] \<and> \<not> both_shown (page v'))"
  proof
    assume "Prescription_orderly (World_init l :: 'q World) rvs"
    from Rx_inv_run[OF Rx_inv_init this]
    obtain v' where r: "Prescription_run (World_init l :: 'q World) rvs = Some v'"
      and i: "Rx_inv v'" by blast
    from Rx_inv_active[OF i] obtain t where "active (page v') = [t]" ..
    moreover from i have "\<not> both_shown (page v')" by (rule Rx_inv_single)
    ultimately show "\<exists>v' t. Prescription_run (World_init l :: 'q World) rvs = Some v'
           \<and> active (page v') = [t] \<and> \<not> both_shown (page v')"
      using r by blast
  qed
  from Lab_upload_sequence[of w f d err] Rx_upload_sequence[of v g c err] lab rx
    Lab_reanalyze_failure[of w f err]
  show ?thesis by blast
qed

theorem upload_sequence_and_single_state_witness:
  "LabReport_orderly (World_init en :: LabResult World)
     [Lab_FileChange (Some report_pdf), Lab_Reply 0 (Inr glucose_result), Lab_LangStrip te,
      Lab_Reanalyze, Lab_Reply 0 (Inr glucose_result)]
   \<and> (\<exists>w' t. LabReport_run (World_init en :: LabResult World)
         [Lab_FileChange (Some report_pdf), Lab_Reply 0 (Inr glucose_result),
          Lab_LangStrip te, Lab_Reanalyze, Lab_Reply 0 (Inr glucose_result)] = Some w'
         \<and> active (page w') = [t] \<and> \<not> both_shown (page w'))
   \<and> Prescription_orderly (World_init en :: RxResult World)
        [Rx_FileChange (Some rx_jpg), Rx_Reply 0 (Inl network_down), Rx_TryAgain,
         Rx_FileChange (Some rx_jpg), Rx_Reply 0 (Inr metformin_result), Rx_UploadAnother]
   \<and> (\<exists>v' t. Prescription_run (World_init en :: RxResult World)
         [Rx_FileChange (Some rx_jpg), Rx_Reply 0 (Inl network_down), Rx_TryAgain,
          Rx_FileChange (Some rx_jpg), Rx_Reply 0 (Inr metformin_result), Rx_UploadAnother]
         = Some v' \<and> active (page v') = [t] \<and> \<not> both_shown (page v'))
   \<and> results_shown (page lab_succeeded) \<and> fileRef (page lab_succeeded) = Some report_pdf
   \<and> (\<exists>w1 w2 m. LabReport_step lab_succeeded Lab_Reanalyze = Some w1
         \<and> active (page w1) = [Pending]
         \<and> result (page w1) = result (page lab_succeeded) \<and> error (page w1) = None
         \<and> LabReport_step w1 (Lab_Reply (length (inflight lab_succeeded)) (Inl network_down))
             = Some w2
         \<and> result (page w2) = result (page lab_succeeded) \<and> error (page w2) = Some m
         \<and> m \<noteq> [] \<and> active (page w2) = [Succeeded, Failed])"
proof -
  have a: "LabReport_orderly (World_init en :: LabResult World)
     [Lab_FileChange (Some report_pdf), Lab_Reply 0 (Inr glucose_result), Lab_LangStrip te,
      Lab_Reanalyze, Lab_Reply 0 (Inr glucose_result)]"
    by (simp add: page_defs lab_defs)
  have b: "Prescription_orderly (World_init en :: RxResult World)
        [Rx_FileChange (Some rx_jpg), Rx_Reply 0 (Inl network_down), Rx_TryAgain,
         Rx_FileChange (Some rx_jpg), Rx_Reply 0 (Inr metformin_result), Rx_UploadAnother]"
    by (simp add: page_defs rx_defs js_or_def js_or_lit_def network_down_def)
  have c: "results_shown (page lab_succeeded) \<and> fileRef (page lab_succeeded) = Some report_pdf"
    by (simp add: lab_succeeded_def results_shown_def)
  from a b c upload_sequence_and_single_state
    [where w = lab_succeeded and f = report_pdf and err = network_down and l = en
       and evs = "[Lab_FileChange (Some report_pdf), Lab_Reply 0 (Inr glucose_result),
          Lab_LangStrip te, Lab_Reanalyze, Lab_Reply 0 (Inr glucose_result)]"
       and rvs = "[Rx_FileChange (Some rx_jpg), Rx_Reply 0 (Inl network_down), Rx_TryAgain,
          Rx_FileChange (Some rx_jpg), Rx_Reply 0 (Inr metformin_result), Rx_UploadAnother]"]
  show ?thesis by blast
qed

text \<open>
  C2 as stated fails on the lab report page: after an upload that succeeds and a
  re-analysis that fails, the page holds the result and the failure message at once,
  and both the result panel and the error block are rendered.
\<close>

theorem failed_reanalysis_shows_both_counterexample:
  "LabReport_run (World_init en)
     [Lab_FileChange (Some report_pdf), Lab_Reply 0 (Inr glucose_result),
      Lab_Reanalyze, Lab_Reply 0 (Inl network_down)]
   = Some \<lparr>page = \<lparr>outputLang = en, result = Some glucose_result, loading = False,
                   error = Some ''Network Error'', fileName = ''report.pdf'',
                   fileRef = Some report_pdf\<rparr>,
            sent = [analyzeLabReport report_pdf ''English'',
                    analyzeLabReport report_pdf ''English''],
            inflight = []\<rparr>
   \<and> active \<lparr>outputLang = en, result = Some glucose_result, loading = False,
              error = Some ''Network Error'', fileName = ''report.pdf'',
              fileRef = Some report_pdf\<rparr> = [Succeeded, Failed]
   \<and> both_shown \<lparr>outputLang = en, result = Some glucose_result, loading = False,
              error = Some ''Network Error'', fileName = ''report.pdf'',
              fileRef = Some report_pdf\<rparr>"
  by (simp add: page_defs lab_defs LANG_MAP_def report_pdf_def network_down_def
      js_or_def js_or_lit_def)


text \<open>
  The condition on turns is needed: the upload button stays rendered while a request is
  in flight, and when a second file is selected before the first reply, the first reply
  can set the result and the second the failure message, on the prescription page too.
\<close>

lemma overlapping_uploads_show_both:
  "Prescription_run (World_init en)
     [Rx_FileChange (Some rx_jpg), Rx_FileChange (Some rx_retake_jpg),
      Rx_Reply 0 (Inr metformin_result), Rx_Reply 0 (Inl network_down)]
   = Some \<lparr>page = \<lparr>outputLang = en, result = Some metformin_result, loading = False,
                   error = Some ''Network Error'', fileName = ''rx-2.jpg'',
                   fileRef = Some rx_retake_jpg\<rparr>,
            sent = [parsePrescription rx_jpg ''English'',
                    parsePrescription rx_retake_jpg ''English''],
            inflight = []\<rparr>"
  by (simp add: page_defs rx_defs LANG_MAP_def rx_jpg_def rx_retake_jpg_def network_down_def
      js_or_def js_or_lit_def)

section \<open>Re-analysis\<close>

lemma Lab_run_append:
  "LabReport_run w (xs @ ys) =
     (case LabReport_run w xs of None \<Rightarrow> None | Some w' \<Rightarrow> LabReport_run w' ys)"
  by (induction xs arbitrary: w) (simp_all split: option.split)

lemma Lab_run_LangStrips:
  "results_shown (page w) \<Longrightarrow>
   LabReport_run w (map Lab_LangStrip ls) =
     Some (w\<lparr>page := (page w)\<lparr>outputLang := last (outputLang (page w) # ls)\<rparr>\<rparr>)"
proof (induction ls arbitrary: w)
  case Nil
  then show ?case by simp
next
  case (Cons l ls)
  have s: "LabReport_step w (Lab_LangStrip l) = Some (w\<lparr>page := (page w)\<lparr>outputLang := l\<rparr>\<rparr>)"
    using Cons.prems by (simp add: LabReport_step_def LabReport_offers_def)
  have "results_shown (page (w\<lparr>page := (page w)\<lparr>outputLang := l\<rparr>\<rparr>))"
    using Cons.prems by (simp add: results_shown_def)
  from Cons.IH[OF this] s show ?case by simp
qed

lemma Lab_upload_then_strips:
  fixes w :: "'r World"
  shows "LabReport_run w
     ([Lab_FileChange (Some f), Lab_Reply (length (inflight w)) (Inr d)] @
      map Lab_LangStrip ls) =
     Some (w\<lparr>page := (page w)\<lparr>fileRef := Some f, fileName := File.name f, loading := False,
                 error := None, result := Some d,
                 outputLang := last (outputLang (page w) # ls)\<rparr>,
             sent := sent w @ [analyzeLabReport f (LANG_MAP (outputLang (page w)))]\<rparr>)"
proof -
  let ?w2 = "w\<lparr>page := (page w)\<lparr>fileRef := Some f, fileName := File.name f,
                 loading := False, error := None, result := Some d\<rparr>,
             sent := sent w @ [analyzeLabReport f (LANG_MAP (outputLang (page w)))]\<rparr>"
  have a: "LabReport_run w [Lab_FileChange (Some f), Lab_Reply (length (inflight w)) (Inr d)]
      = Some ?w2"
    by (simp add: LabReport_step_def LabReport_offers_def issue_def nth_drop_last
        LabReport_handleUpload_sync_def LabReport_handleUpload_await_def)
  have b: "results_shown (page ?w2)" by (simp add: results_shown_def)
  show ?thesis
    by (simp only: Lab_run_append a option.case Lab_run_LangStrips[OF b]) simp
qed

text \<open>
  C3. A re-analyze action taken while the result panel is shown hands the Service
  Client one request, for the file the input holds and the long name of the output
  language of that moment; when the input holds no file it hands over nothing and
  changes nothing. After an upload of \<open>f\<close> that succeeded and any clicks \<open>ls\<close> on the
  language strip, re-analysis asks for \<open>f\<close> again in the language clicked last (the
  language of the upload when \<open>ls\<close> is empty); when the selection was emptied in
  between, it asks for nothing.
\<close>

theorem reanalyze_uses_file_and_current_language:
  fixes w :: "'r World"
  shows
  "(results_shown (page w) \<longrightarrow>
      (\<exists>w'. LabReport_step w Lab_Reanalyze = Some w'
         \<and> sent w' = sent w @
             (case fileRef (page w) of
                None \<Rightarrow> []
              | Some file \<Rightarrow> [analyzeLabReport file (LANG_MAP (outputLang (page w)))])
         \<and> (case fileRef (page w) of
               None \<Rightarrow> w' = w
             | Some file \<Rightarrow> active (page w') = [Pending] \<and> inflight w' = inflight w @ [Reanalyze])))
   \<and> (\<exists>w'. LabReport_run w
          ([Lab_FileChange (Some f), Lab_Reply (length (inflight w)) (Inr d)] @
           map Lab_LangStrip ls @ [Lab_Reanalyze]) = Some w'
        \<and> sent w' = sent w @
            [analyzeLabReport f (LANG_MAP (outputLang (page w))),
             analyzeLabReport f (LANG_MAP (last (outputLang (page w) # ls)))]
        \<and> result (page w') = Some d \<and> active (page w') = [Pending])
   \<and> (\<exists>w'. LabReport_run w
          ([Lab_FileChange (Some f), Lab_Reply (length (inflight w)) (Inr d)] @
           map Lab_LangStrip ls @ [Lab_FileChange None, Lab_Reanalyze]) = Some w'
        \<and> sent w' = sent w @ [analyzeLabReport f (LANG_MAP (outputLang (page w)))]
        \<and> result (page w') = Some d \<and> active (page w') = [Succeeded])"
proof (intro conjI impI)
  assume "results_shown (page w)"
  then show "\<exists>w'. LabReport_step w Lab_Reanalyze = Some w'
         \<and> sent w' = sent w @
             (case fileRef (page w) of
                None \<Rightarrow> []
              | Some file \<Rightarrow> [analyzeLabReport file (LANG_MAP (outputLang (page w)))])
         \<and> (case fileRef (page w) of
               None \<Rightarrow> w' = w
             | Some file \<Rightarrow> active (page w') = [Pending] \<and> inflight w' = inflight w @ [Reanalyze])"
    by (cases "fileRef (page w)")
      (simp_all add: LabReport_step_def LabReport_offers_def issue_def
        LabReport_handleReanalyze_sync_def page_defs)
next
  have e: "[Lab_FileChange (Some f), Lab_Reply (length (inflight w)) (Inr d)] @
           map Lab_LangStrip ls @ [Lab_Reanalyze]
         = ([Lab_FileChange (Some f), Lab_Reply (length (inflight w)) (Inr d)] @
            map Lab_LangStrip ls) @ [Lab_Reanalyze]"
    by simp
  show "\<exists>w'. LabReport_run w
          ([Lab_FileChange (Some f), Lab_Reply (length (inflight w)) (Inr d)] @
           map Lab_LangStrip ls @ [Lab_Reanalyze]) = Some w'
        \<and> sent w' = sent w @
            [analyzeLabReport f (LANG_MAP (outputLang (page w))),
             analyzeLabReport f (LANG_MAP (last (outputLang (page w) # ls)))]
        \<and> result (page w') = Some d \<and> active (page w') = [Pending]"
    unfolding e
    apply (subst Lab_run_append)
    apply (simp only: Lab_upload_then_strips option.case)
    by (simp add: LabReport_step_def LabReport_offers_def issue_def
        LabReport_handleReanalyze_sync_def page_defs del: last.simps)
next
  have e: "[Lab_FileChange (Some f), Lab_Reply (length (inflight w)) (Inr d)] @
           map Lab_LangStrip ls @ [Lab_FileChange None, Lab_Reanalyze]
         = ([Lab_FileChange (Some f), Lab_Reply (length (inflight w)) (Inr d)] @
            map Lab_LangStrip ls) @ [Lab_FileChange None, Lab_Reanalyze]"
    by simp
  show "\<exists>w'. LabReport_run w
          ([Lab_FileChange (Some f), Lab_Reply (length (inflight w)) (Inr d)] @
           map Lab_LangStrip ls @ [Lab_FileChange None, Lab_Reanalyze]) = Some w'
        \<and> sent w' = sent w @ [analyzeLabReport f (LANG_MAP (outputLang (page w)))]
        \<and> result (page w') = Some d \<and> active (page w') = [Succeeded]"
    unfolding e
    apply (subst Lab_run_append)
    apply (simp only: Lab_upload_then_strips option.case)
    by (simp add: LabReport_step_def LabReport_offers_def issue_def
        LabReport_handleReanalyze_sync_def LabReport_handleUpload_sync_def page_defs
        del: last.simps)
qed


theorem reanalyze_uses_file_and_current_language_witness:
  "results_shown (page (lab_succeeded\<lparr>page := (page lab_succeeded)\<lparr>outputLang := te\<rparr>\<rparr>))
   \<and> (\<exists>w'. LabReport_step (lab_succeeded\<lparr>page := (page lab_succeeded)\<lparr>outputLang := te\<rparr>\<rparr>)
              Lab_Reanalyze = Some w'
         \<and> sent w' = [analyzeLabReport report_pdf ''English'',
                       analyzeLabReport report_pdf ''Telugu'']
         \<and> active (page w') = [Pending] \<and> inflight w' = [Reanalyze])"
proof -
  have h: "results_shown
      (page (lab_succeeded\<lparr>page := (page lab_succeeded)\<lparr>outputLang := te\<rparr>\<rparr>))"
    by (simp add: lab_succeeded_def results_shown_def)
  from h reanalyze_uses_file_and_current_language
    [where w = "lab_succeeded\<lparr>page := (page lab_succeeded)\<lparr>outputLang := te\<rparr>\<rparr>"]
  show ?thesis by (simp add: lab_succeeded_def LANG_MAP_def)
qed

section \<open>Switching the output language\<close>

text \<open>
  C7. While the result panel of a document page is shown, a click on the language strip
  runs the setter of \<open>outputLang\<close> and nothing else: no request is handed to the
  Service Client, none is put in flight, the stored result and every other cell stay as
  they are, and the workflow state stays what it was. What the panel renders from the
  result is therefore unchanged; only the language it is tagged with is the new one.
\<close>

theorem language_switch_is_local:
  fixes w :: "'r World" and v :: "'q World"
  shows
  "(results_shown (page w) \<longrightarrow>
      (\<exists>w'. LabReport_step w (Lab_LangStrip l) = Some w'
         \<and> sent w' = sent w \<and> inflight w' = inflight w
         \<and> page w' = (page w)\<lparr>outputLang := l\<rparr>
         \<and> result (page w') = result (page w) \<and> active (page w') = active (page w)))
   \<and> (results_shown (page v) \<longrightarrow>
      (\<exists>v'. Prescription_step v (Rx_LangStrip l) = Some v'
         \<and> sent v' = sent v \<and> inflight v' = inflight v
         \<and> page v' = (page v)\<lparr>outputLang := l\<rparr>
         \<and> result (page v') = result (page v) \<and> active (page v') = active (page v)))"
  by (simp add: LabReport_step_def LabReport_offers_def Prescription_step_def
      Prescription_offers_def active_def idle_def results_shown_def)

theorem language_switch_is_local_witness:
  "results_shown (page lab_succeeded)
   \<and> (\<exists>w'. LabReport_step lab_succeeded (Lab_LangStrip te) = Some w'
         \<and> sent w' = sent lab_succeeded \<and> inflight w' = inflight lab_succeeded
         \<and> page w' = (page lab_succeeded)\<lparr>outputLang := te\<rparr>
         \<and> result (page w') = result (page lab_succeeded)
         \<and> active (page w') = active (page lab_succeeded))
   \<and> results_shown (page rx_succeeded)
   \<and> (\<exists>v'. Prescription_step rx_succeeded (Rx_LangStrip te) = Some v'
         \<and> sent v' = sent rx_succeeded \<and> inflight v' = inflight rx_succeeded
         \<and> page v' = (page rx_succeeded)\<lparr>outputLang := te\<rparr>
         \<and> result (page v') = result (page rx_succeeded)
         \<and> active (page v') = active (page rx_succeeded))"
proof -
  have h: "results_shown (page lab_succeeded)" "results_shown (page rx_succeeded)"
    by (simp_all add: lab_succeeded_def rx_succeeded_def results_shown_def)
  from h language_switch_is_local[where w = lab_succeeded and v = rx_succeeded and l = te]
  show ?thesis by blast
qed

section \<open>Reset to idle\<close>

lemma Lab_step_not_idle:
  "\<not> idle (page w) \<Longrightarrow> LabReport_step w ev = Some w' \<Longrightarrow> \<not> idle (page w')"
proof (cases ev)
  case (Lab_FileChange e)
  assume "\<not> idle (page w)" "LabReport_step w ev = Some w'"
  with Lab_FileChange show ?thesis
    by (cases e)
      (auto simp: LabReport_step_def LabReport_offers_def issue_def idle_def
        LabReport_handleUpload_sync_def)
next
  case (Lab_LangStrip l)
  assume "\<not> idle (page w)" "LabReport_step w ev = Some w'"
  with Lab_LangStrip show ?thesis
    by (auto simp: LabReport_step_def LabReport_offers_def idle_def split: if_splits)
next
  case Lab_Reanalyze
  assume "\<not> idle (page w)" "LabReport_step w ev = Some w'"
  with Lab_Reanalyze show ?thesis
    by (cases "fileRef (page w)")
      (auto simp: LabReport_step_def LabReport_offers_def issue_def idle_def
        LabReport_handleReanalyze_sync_def split: if_splits)
next
  case (Lab_Reply i reply)
  assume "\<not> idle (page w)" "LabReport_step w ev = Some w'"
  with Lab_Reply show ?thesis
    by (cases reply)
      (auto simp: LabReport_step_def LabReport_offers_def idle_def
        LabReport_handleUpload_await_def LabReport_handleReanalyze_await_def
        split: if_splits awaiting.splits)
qed

lemma Lab_run_not_idle:
  "\<not> idle (page w) \<Longrightarrow> LabReport_run w evs = Some w' \<Longrightarrow> \<not> idle (page w')"
proof (induction evs arbitrary: w)
  case Nil
  then show ?case by simp
next
  case (Cons ev evs)
  from Cons.prems(2) obtain w1 where s: "LabReport_step w ev = Some w1"
    and r: "LabReport_run w1 evs = Some w'"
    by (auto split: option.splits)
  from Lab_step_not_idle[OF Cons.prems(1) s] have "\<not> idle (page w1)" .
  from Cons.IH[OF this r] show ?case .
qed

text \<open>
  C9. On the prescription page Upload Another is offered while the result panel is
  shown, Try Again while a failure message is shown, and either one clears result and
  error, which leaves the page idle, without a request. On the lab report page no
  event leads back to idle: once the page is not idle, it is not idle after any run;
  from the result panel, re-analysis keeps the result and the file name in place.
\<close>

theorem reset_only_on_prescription:
  fixes w :: "'r World" and v :: "'q World"
  shows
  "(results_shown (page v) \<longrightarrow>
      (\<exists>v'. Prescription_step v Rx_UploadAnother = Some v'
         \<and> result (page v') = None \<and> error (page v') = None
         \<and> active (page v') = [Idle] \<and> sent v' = sent v \<and> inflight v' = inflight v))
   \<and> (truthy (error (page v)) \<and> \<not> loading (page v) \<longrightarrow>
      (\<exists>v'. Prescription_step v Rx_TryAgain = Some v'
         \<and> result (page v') = None \<and> error (page v') = None
         \<and> active (page v') = [Idle] \<and> sent v' = sent v \<and> inflight v' = inflight v))
   \<and> (\<not> idle (page w) \<and> LabReport_run w evs = Some w' \<longrightarrow> \<not> idle (page w'))
   \<and> (results_shown (page w) \<longrightarrow>
      (\<exists>w'. LabReport_step w Lab_Reanalyze = Some w'
         \<and> result (page w') = result (page w) \<and> fileName (page w') = fileName (page w)
         \<and> Idle \<notin> set (active (page w'))))"
proof (intro conjI impI)
  assume "results_shown (page v)"
  then show "\<exists>v'. Prescription_step v Rx_UploadAnother = Some v'
         \<and> result (page v') = None \<and> error (page v') = None
         \<and> active (page v') = [Idle] \<and> sent v' = sent v \<and> inflight v' = inflight v"
    by (simp add: Prescription_step_def Prescription_offers_def
        Prescription_uploadAnother_def page_defs)
next
  assume "truthy (error (page v)) \<and> \<not> loading (page v)"
  then show "\<exists>v'. Prescription_step v Rx_TryAgain = Some v'
         \<and> result (page v') = None \<and> error (page v') = None
         \<and> active (page v') = [Idle] \<and> sent v' = sent v \<and> inflight v' = inflight v"
    by (simp add: Prescription_step_def Prescription_offers_def
        Prescription_tryAgain_def active_def idle_def results_shown_def)
      (simp add: truthy_def)
next
  assume "\<not> idle (page w) \<and> LabReport_run w evs = Some w'"
  then show "\<not> idle (page w')" using Lab_run_not_idle by blast
next
  assume "results_shown (page w)"
  then show "\<exists>w'. LabReport_step w Lab_Reanalyze = Some w'
         \<and> result (page w') = result (page w) \<and> fileName (page w') = fileName (page w)
         \<and> Idle \<notin> set (active (page w'))"
    by (cases "fileRef (page w)")
      (simp_all add: LabReport_step_def LabReport_offers_def issue_def
        LabReport_handleReanalyze_sync_def page_defs)
qed


theorem reset_only_on_prescription_witness:
  "results_shown (page rx_succeeded)
   \<and> (\<exists>v'. Prescription_step rx_succeeded Rx_UploadAnother = Some v'
         \<and> result (page v') = None \<and> error (page v') = None
         \<and> active (page v') = [Idle] \<and> sent v' = sent rx_succeeded
         \<and> inflight v' = inflight rx_succeeded)
   \<and> truthy (error (page rx_failed)) \<and> \<not> loading (page rx_failed)
   \<and> (\<exists>v'. Prescription_step rx_failed Rx_TryAgain = Some v'
         \<and> result (page v') = None \<and> error (page v') = None
         \<and> active (page v') = [Idle] \<and> sent v' = sent rx_failed
         \<and> inflight v' = inflight rx_failed)
   \<and> \<not> idle (page lab_succeeded)
   \<and> (\<exists>w'. LabReport_run lab_succeeded
          [Lab_LangStrip te, Lab_Reanalyze, Lab_Reply 0 (Inl network_down),
           Lab_FileChange None] = Some w' \<and> \<not> idle (page w'))
   \<and> results_shown (page lab_succeeded)
   \<and> (\<exists>w'. LabReport_step lab_succeeded Lab_Reanalyze = Some w'
         \<and> result (page w') = result (page lab_succeeded)
         \<and> fileName (page w') = fileName (page lab_succeeded)
         \<and> Idle \<notin> set (active (page w')))"
proof -
  have h: "results_shown (page rx_succeeded)"
    "truthy (error (page rx_failed)) \<and> \<not> loading (page rx_failed)"
    "\<not> idle (page lab_succeeded)" "results_shown (page lab_succeeded)"
    by (simp_all add: lab_succeeded_def rx_succeeded_def rx_failed_def results_shown_def
        truthy_def idle_def)
  have r: "LabReport_run lab_succeeded
          [Lab_LangStrip te, Lab_Reanalyze, Lab_Reply 0 (Inl network_down),
           Lab_FileChange None]
      = Some \<lparr>page = \<lparr>outputLang = te, result = Some glucose_result, loading = False,
                   error = Some ''Network Error'', fileName = ''report.pdf'',
                   fileRef = None\<rparr>,
            sent = [analyzeLabReport report_pdf ''English'',
                    analyzeLabReport report_pdf ''Telugu''],
            inflight = []\<rparr>"
    by (simp add: lab_succeeded_def page_defs lab_defs LANG_MAP_def network_down_def
        js_or_def js_or_lit_def)
  from h r reset_only_on_prescription[where v = rx_succeeded]
    reset_only_on_prescription[where v = rx_failed]
    reset_only_on_prescription[where w = lab_succeeded and w' = "\<lparr>page = \<lparr>outputLang = te, result = Some glucose_result, loading = False,
                   error = Some ''Network Error'', fileName = ''report.pdf'',
                   fileRef = None\<rparr>,
            sent = [analyzeLabReport report_pdf ''English'',
                    analyzeLabReport report_pdf ''Telugu''],
            inflight = []\<rparr>" and evs = "[Lab_LangStrip te, Lab_Reanalyze, Lab_Reply 0 (Inl network_down),
           Lab_FileChange None]"]
  show ?thesis by blast
qed

section \<open>Manual check-in\<close>

lemmas literal_defs = check_mark_def warning_sign_def cross_mark_def em_dash_def

text \<open>
  C10. Whatever the cells of the follow-up page hold, the check-in trigger hands the
  Service Client one request: a POST to \<^verbatim>\<open>/checkin/send\<close> with the phone number
  +919999999999, the name Ravi Kumar, and the long name of the chat output language
  (Telugu for te, Hindi for hi, English otherwise). It sets the loading flag and clears
  the earlier status.
\<close>

theorem checkin_request_is_fixed:
  "handleTriggerCheckin_sync s =
     (s\<lparr>checkinLoading := True, checkinStatus := None\<rparr>,
      [\<lparr>verb = POST, path = ''/checkin/send'',
        form = [(''phone'', Text ''+919999999999''), (''name'', Text ''Ravi Kumar''),
                (''language'',
                 Text (case chatLang s of
                         en \<Rightarrow> ''English'' | te \<Rightarrow> ''Telugu'' | hi \<Rightarrow> ''Hindi''))],
        headers = []\<rparr>])
   \<and> snd (handleTriggerCheckin_sync
           (s\<lparr>inputText := txt, checkinStatus := st, checkinLoading := b,
              enrollForm := frm, enrollStatus := est\<rparr>))
       = snd (handleTriggerCheckin_sync s)
   \<and> snd (handleTriggerCheckin_sync s) =
       [sendCheckin ''+919999999999'' ''Ravi Kumar''
          (case chatLang s of en \<Rightarrow> ''English'' | te \<Rightarrow> ''Telugu'' | hi \<Rightarrow> ''Hindi'')]"
  by (cases "chatLang s") (simp_all add: handleTriggerCheckin_sync_def sendCheckin_def)

text \<open>
  C4. A reply to the check-in without a confirmation id (missing, or empty) is recorded
  with \<open>ok\<close> true and the demo-mode text; a reply with a confirmation id is recorded with
  \<open>ok\<close> true and a text that contains the id. Every successful reply is recorded with
  \<open>ok\<close> true and ends the loading flag. The demo-mode text differs from the text of a
  sent check-in and from every failure text.
\<close>

theorem checkin_success_messages:
  "checkinStatus (handleTriggerCheckin_await s (Inr \<lparr>message_sid = None\<rparr>))
     = Some \<lparr>ok = True,
             msg = check_mark @ '' Check-in triggered (Twilio not configured '' @
                   em_dash @ '' demo mode)''\<rparr>
   \<and> checkinStatus (handleTriggerCheckin_await s (Inr \<lparr>message_sid = Some []\<rparr>))
     = Some \<lparr>ok = True,
             msg = check_mark @ '' Check-in triggered (Twilio not configured '' @
                   em_dash @ '' demo mode)''\<rparr>
   \<and> (sid \<noteq> [] \<longrightarrow>
        checkinStatus (handleTriggerCheckin_await s (Inr \<lparr>message_sid = Some sid\<rparr>))
          = Some \<lparr>ok = True, msg = check_mark @ '' Check-in sent (SID: '' @ sid @ '')''\<rparr>)
   \<and> (\<exists>st. checkinStatus (handleTriggerCheckin_await s (Inr res)) = Some st \<and> ok st)
   \<and> \<not> checkinLoading (handleTriggerCheckin_await s (Inr res))
   \<and> check_mark @ '' Check-in triggered (Twilio not configured '' @ em_dash @ '' demo mode)''
       \<noteq> check_mark @ '' Check-in sent (SID: '' @ sid @ '')''
   \<and> check_mark @ '' Check-in triggered (Twilio not configured '' @ em_dash @ '' demo mode)''
       \<noteq> warning_sign @ '' '' @ x"
  by (simp add: handleTriggerCheckin_await_def truthy_def template_def literal_defs)

theorem checkin_success_messages_witness:
  "''SM42'' \<noteq> []
   \<and> checkinStatus (handleTriggerCheckin_await (fst (handleTriggerCheckin_sync (FollowUp_init en)))
        (Inr \<lparr>message_sid = Some ''SM42''\<rparr>))
     = Some \<lparr>ok = True, msg = check_mark @ '' Check-in sent (SID: SM42)''\<rparr>"
  using checkin_success_messages
    [where sid = "''SM42''" and s = "fst (handleTriggerCheckin_sync (FollowUp_init en))"]
  by simp

text \<open>
  C5 (as amended). When the check-in fails, the status is recorded with \<open>ok\<close> false and
  the warning sign, a space, and then: the structured detail of the error when it has a
  non-empty one; else the error's own message when that is non-empty; else the fixed
  text about missing credentials. This holds of every error: the first conjunct is the
  case split in general, the ones after it spell out each shape of detail and message
  (missing, empty, non-empty). The message is never empty and the loading flag is
  ended.
\<close>

theorem checkin_failure_message:
  "checkinStatus (handleTriggerCheckin_await s (Inl err))
     = Some \<lparr>ok = False,
             msg = warning_sign @ '' '' @
                   (case (if truthy (detail err) then detail err
                          else if truthy (message err) then message err
                          else None) of
                      Some x \<Rightarrow> x
                    | None \<Rightarrow> ''Check-in failed '' @ em_dash @
                               '' Twilio credentials may be missing'')\<rparr>
   \<and> checkinStatus (handleTriggerCheckin_await s (Inl \<lparr>detail = None, message = Some []\<rparr>))
        = Some \<lparr>ok = False,
                msg = warning_sign @ '' Check-in failed '' @ em_dash @
                      '' Twilio credentials may be missing''\<rparr>
   \<and> checkinStatus (handleTriggerCheckin_await s (Inl \<lparr>detail = Some [], message = None\<rparr>))
        = Some \<lparr>ok = False,
                msg = warning_sign @ '' Check-in failed '' @ em_dash @
                      '' Twilio credentials may be missing''\<rparr>
   \<and> (d \<noteq> [] \<longrightarrow>
      checkinStatus (handleTriggerCheckin_await s (Inl \<lparr>detail = Some d, message = m\<rparr>))
        = Some \<lparr>ok = False, msg = warning_sign @ '' '' @ d\<rparr>)
   \<and> (e \<noteq> [] \<longrightarrow>
      checkinStatus (handleTriggerCheckin_await s (Inl \<lparr>detail = None, message = Some e\<rparr>))
        = Some \<lparr>ok = False, msg = warning_sign @ '' '' @ e\<rparr>
      \<and> checkinStatus (handleTriggerCheckin_await s (Inl \<lparr>detail = Some [], message = Some e\<rparr>))
        = Some \<lparr>ok = False, msg = warning_sign @ '' '' @ e\<rparr>)
   \<and> checkinStatus (handleTriggerCheckin_await s (Inl \<lparr>detail = None, message = None\<rparr>))
        = Some \<lparr>ok = False,
                msg = warning_sign @ '' Check-in failed '' @ em_dash @
                      '' Twilio credentials may be missing''\<rparr>
   \<and> checkinStatus (handleTriggerCheckin_await s (Inl \<lparr>detail = Some [], message = Some []\<rparr>))
        = Some \<lparr>ok = False,
                msg = warning_sign @ '' Check-in failed '' @ em_dash @
                      '' Twilio credentials may be missing''\<rparr>
   \<and> (\<exists>st. checkinStatus (handleTriggerCheckin_await s (Inl err)) = Some st \<and> \<not> ok st
         \<and> msg st \<noteq> [])
   \<and> \<not> checkinLoading (handleTriggerCheckin_await s (Inl err))"
  by (cases "detail err"; cases "message err")
    (simp_all add: handleTriggerCheckin_await_def js_or_def js_or_lit_def truthy_def Let_def
      literal_defs)

theorem checkin_failure_message_witness:
  "''Twilio not configured'' \<noteq> [] \<and> ''Network Error'' \<noteq> []
   \<and> checkinStatus (handleTriggerCheckin_await (fst (handleTriggerCheckin_sync (FollowUp_init en)))
        (Inl \<lparr>detail = Some ''Twilio not configured'',
              message = Some ''Request failed with status code 400''\<rparr>))
     = Some \<lparr>ok = False, msg = warning_sign @ '' '' @ ''Twilio not configured''\<rparr>
   \<and> checkinStatus (handleTriggerCheckin_await (fst (handleTriggerCheckin_sync (FollowUp_init en)))
        (Inl \<lparr>detail = None, message = Some ''Network Error''\<rparr>))
     = Some \<lparr>ok = False, msg = warning_sign @ '' '' @ ''Network Error''\<rparr>
   \<and> checkinStatus (handleTriggerCheckin_await (fst (handleTriggerCheckin_sync (FollowUp_init en)))
        (Inl \<lparr>detail = Some [], message = Some ''Network Error''\<rparr>))
     = Some \<lparr>ok = False, msg = warning_sign @ '' '' @ ''Network Error''\<rparr>"
proof -
  have h: "''Twilio not configured'' \<noteq> []" "''Network Error'' \<noteq> []"
    by simp_all
  from h checkin_failure_message
    [where d = "''Twilio not configured''" and e = "''Network Error''"
       and m = "Some ''Request failed with status code 400''"
       and s = "fst (handleTriggerCheckin_sync (FollowUp_init en))"]
  show ?thesis by blast
qed

text \<open>
  C5 as stated fails: for the detail \<^verbatim>\<open>Twilio not configured\<close> the recorded message is
  that detail behind the warning sign and a space, which is not the detail string
  itself.
\<close>

theorem checkin_failure_message_counterexample:
  "checkinStatus (handleTriggerCheckin_await (fst (handleTriggerCheckin_sync (FollowUp_init en)))
        (Inl \<lparr>detail = Some ''Twilio not configured'',
              message = Some ''Request failed with status code 400''\<rparr>))
     = Some \<lparr>ok = False,
             msg = [CHR 0xE2, CHR 0x9A, CHR 0xA0, CHR 0xEF, CHR 0xB8, CHR 0x8F] @
                   '' Twilio not configured''\<rparr>
   \<and> [CHR 0xE2, CHR 0x9A, CHR 0xA0, CHR 0xEF, CHR 0xB8, CHR 0x8F] @ '' Twilio not configured''
       \<noteq> ''Twilio not configured''"
  by (simp add: handleTriggerCheckin_await_def handleTriggerCheckin_sync_def js_or_def
      js_or_lit_def Let_def literal_defs)

section \<open>Enrollment\<close>

text \<open>
  C6 (as amended). Every submission of the enrollment form hands the Service Client one
  request, a POST to \<^verbatim>\<open>/checkin/enroll\<close> that carries the phone and the name as
  typed, empty or not, with the language and the doctor's phone of the draft; the
  handler checks nothing and leaves the cells as they are until the reply.
\<close>

theorem enroll_always_calls:
  "handleEnroll_sync (setName n (setPhone p s)) =
     (setName n (setPhone p s),
      [\<lparr>verb = POST, path = ''/checkin/enroll'',
        form = [(''phone'', Text p), (''name'', Text n),
                (''language'', Text (language (enrollForm s))),
                (''doctor_phone'', Text (doctorPhone (enrollForm s)))],
        headers = []\<rparr>])
   \<and> fst (handleEnroll_sync s) = s
   \<and> snd (handleEnroll_sync s) =
       [enrollPatient (phone (enrollForm s)) (EnrollForm.name (enrollForm s))
          (language (enrollForm s)) (doctorPhone (enrollForm s))]
   \<and> length (snd (handleEnroll_sync s)) = 1"
  by (simp add: handleEnroll_sync_def setName_def setPhone_def enrollPatient_def)

text \<open>
  C6 as stated fails: with a name typed and the phone left empty, the submission hands
  over a request whose phone field is empty.
\<close>

theorem enroll_empty_phone_counterexample:
  "phone (enrollForm (setName ''Ravi Kumar'' (FollowUp_init en))) = []
   \<and> snd (handleEnroll_sync (setName ''Ravi Kumar'' (FollowUp_init en))) =
       [\<lparr>verb = POST, path = ''/checkin/enroll'',
         form = [(''phone'', Text []), (''name'', Text ''Ravi Kumar''),
                 (''language'', Text ''English''), (''doctor_phone'', Text [])],
         headers = []\<rparr>]
   \<and> snd (handleEnroll_sync (setName ''Ravi Kumar'' (FollowUp_init en))) \<noteq> []"
  by (simp add: handleEnroll_sync_def setName_def FollowUp_init_def enrollPatient_def)

section \<open>Dashboard snapshot\<close>

text \<open>
  C8. The dashboard asks for its snapshot once. When the request fails, the page is
  left exactly as it was: from the initial page the stats are the defaults
  24, 4, 3 and 5, which are the figures shown, and the page has no cell that could hold
  an error. When the request succeeds, the stats are the snapshot fetched.
\<close>

theorem dashboard_keeps_defaults_on_failure:
  "Dashboard_effect_await Dashboard_init (Inl err) = Dashboard_init
   \<and> stats (Dashboard_effect_await Dashboard_init (Inl err))
       = \<lparr>lab_count = 24, rx_count = 4, alert_count = 3, recovery_day = 5\<rparr>
   \<and> Dashboard_figures (Dashboard_effect_await Dashboard_init (Inl err)) = [24, 4, 3, 5, 3]
   \<and> Dashboard_effect_await s (Inl err) = s
   \<and> stats (Dashboard_effect_await s (Inr data)) = data
   \<and> Dashboard_figures (Dashboard_effect_await s (Inr data))
       = [lab_count data, rx_count data, alert_count data, recovery_day data, alert_count data]
   \<and> Dashboard_effect_sync Dashboard_init = (Dashboard_init, [getDashboardStats])"
  by (simp add: Dashboard_effect_await_def Dashboard_init_def Dashboard_figures_def
      Dashboard_effect_sync_def)

end
